theory Spec2Isabelle
  imports Complex_Main "HOL-Library.Char_ord" "HOL-Library.List_Lexorder" "HOL-Library.Log_Nat"
begin

section \<open>Values of the libraries the dashboard computes with\<close>

subsection \<open>Dates and time differences\<close>

text \<open>
  A \<^verbatim>\<open>datetime(y, m, d)\<close> of the source is a calendar date at midnight;
  \<^verbatim>\<open>datetime.now()\<close> carries a time of day down to the microsecond. Subtracting
  two of them gives a time difference, whose \<^verbatim>\<open>days\<close> attribute is the number of
  whole days rounded towards minus infinity (the remainder is kept as a non-negative
  part of a day). Dates are counted as proleptic Gregorian ordinals.
\<close>

record datetime =
  year :: int
  month :: int
  day :: int
  hour :: int
  minute :: int
  second :: int
  microsecond :: int

definition mk_datetime :: "int \<Rightarrow> int \<Rightarrow> int \<Rightarrow> datetime" where
  "mk_datetime y m d =
     \<lparr>year = y, month = m, day = d, hour = 0, minute = 0, second = 0, microsecond = 0\<rparr>"

definition is_leap :: "int \<Rightarrow> bool" where
  "is_leap y = (if y mod 4 = 0 then (if y mod 100 = 0 then y mod 400 = 0 else True) else False)"

definition days_in_month :: "int \<Rightarrow> int \<Rightarrow> int" where
  "days_in_month y m =
     (if m = 2 then (if is_leap y then 29 else 28)
      else if m = 4 then 30 else if m = 6 then 30 else if m = 9 then 30 else if m = 11 then 30
      else 31)"

definition days_before_year :: "int \<Rightarrow> int" where
  "days_before_year y = (y - 1) * 365 + (y - 1) div 4 - (y - 1) div 100 + (y - 1) div 400"

definition days_before_month :: "int \<Rightarrow> int \<Rightarrow> int" where
  "days_before_month y m = sum_list (map (days_in_month y) [1..m - 1])"

definition ymd2ord :: "int \<Rightarrow> int \<Rightarrow> int \<Rightarrow> int" where
  "ymd2ord y m d = days_before_year y + days_before_month y m + d"

definition to_micros :: "datetime \<Rightarrow> int" where
  "to_micros t =
     (((ymd2ord (year t) (month t) (day t) * 24 + hour t) * 60 + minute t) * 60 + second t)
       * 1000000 + microsecond t"

text \<open>A time difference, in microseconds.\<close>

type_synonym timedelta = int

definition dt_sub :: "datetime \<Rightarrow> datetime \<Rightarrow> timedelta" where
  "dt_sub a b = to_micros a - to_micros b"

definition days :: "timedelta \<Rightarrow> int" where
  "days td = td div 86400000000"

definition dt_min :: "datetime \<Rightarrow> datetime \<Rightarrow> datetime" where
  "dt_min a b = (if to_micros b < to_micros a then b else a)"

definition dt_max :: "datetime \<Rightarrow> datetime \<Rightarrow> datetime" where
  "dt_max a b = (if to_micros a < to_micros b then b else a)"

text \<open>The minimum and maximum of a column of dates; an empty column has none.\<close>

fun series_min :: "datetime list \<Rightarrow> datetime option" where
  "series_min [] = None"
| "series_min (x # xs) = Some (foldl dt_min x xs)"

fun series_max :: "datetime list \<Rightarrow> datetime option" where
  "series_max [] = None"
| "series_max (x # xs) = Some (foldl dt_max x xs)"

subsection \<open>Integer and floating-point columns\<close>

text \<open>
  The cost and income columns are columns of 64-bit signed integers: that is the kind
  of column the integer literals of the builder give. Subtracting two such columns
  wraps around at 64 bits without a signal. A table with a value outside that range
  would have columns of another kind, with another arithmetic; this model does not
  describe them, and every statement about the calculator carries the range as a
  hypothesis.
\<close>

definition int64 :: "int \<Rightarrow> bool" where
  "int64 v = (- (2 ^ 63) \<le> v \<and> v < 2 ^ 63)"

definition wrap64 :: "int \<Rightarrow> int" where
  "wrap64 v = (v + 2 ^ 63) mod 2 ^ 64 - 2 ^ 63"

text \<open>
  The quotient of two integer columns is a column of binary64 floats. A finite float is
  modelled by the rational number it stands for; the negative zero, the two infinities
  and not-a-number are values of their own (\<open>Finite 0\<close> is the positive zero). Every
  operation rounds its exact result to the nearest float, ties to the float with an
  even significand: 53 significant bits, exponents from \<open>-1022\<close> to \<open>1023\<close>, gradual
  underflow below, an infinity above.
\<close>

datatype pyfloat = Finite rat | NegZero | PosInf | NegInf | NaN

definition pow2 :: "int \<Rightarrow> rat" where
  "pow2 e = (if 0 \<le> e then 2 ^ nat e else 1 / 2 ^ nat (- e))"

text \<open>The binary exponent of a non-zero rational: \<open>2 ^ e \<le> \<bar>x\<bar> < 2 ^ (e + 1)\<close>.\<close>

definition exponent :: "rat \<Rightarrow> int" where
  "exponent x =
     (let (p, q) = quotient_of \<bar>x\<bar>; d = bitlen p - bitlen q
      in if pow2 d \<le> \<bar>x\<bar> then d else d - 1)"

definition round_half_even :: "rat \<Rightarrow> int" where
  "round_half_even x =
     (let f = \<lfloor>x\<rfloor>; d = x - of_int f
      in if d < 1 / 2 then f else if 1 / 2 < d then f + 1 else if even f then f else f + 1)"

text \<open>The nearest multiple of the unit in the last place of \<open>x\<close>.\<close>

definition nearest_double :: "rat \<Rightarrow> rat" where
  "nearest_double x =
     (if x = 0 then 0
      else let ulp = pow2 (max (exponent x) (- 1022) - 52)
           in of_int (round_half_even (x / ulp)) * ulp)"

definition round64 :: "rat \<Rightarrow> pyfloat" where
  "round64 x =
     (let y = nearest_double x
      in if y = 0 then (if x < 0 then NegZero else Finite 0)
         else if 1024 \<le> exponent y then (if 0 < y then PosInf else NegInf)
         else Finite y)"

text \<open>
  Division of a 64-bit integer by a 64-bit integer: both are converted to floats, then
  divided. A zero divisor raises nothing: the result is an infinity of the sign of the
  dividend, or not-a-number for \<open>0 / 0\<close>.
\<close>

definition true_divide :: "int \<Rightarrow> int \<Rightarrow> pyfloat" where
  "true_divide a b =
     (if b = 0 then (if 0 < a then PosInf else if a < 0 then NegInf else NaN)
      else if a = 0 then (if b < 0 then NegZero else Finite 0)
      else round64 (nearest_double (of_int a) / nearest_double (of_int b)))"

text \<open>Multiplication of a float by the integer literal \<open>100\<close>.\<close>

fun mul_100 :: "pyfloat \<Rightarrow> pyfloat" where
  "mul_100 (Finite q) = round64 (q * 100)"
| "mul_100 NegZero = NegZero"
| "mul_100 PosInf = PosInf"
| "mul_100 NegInf = NegInf"
| "mul_100 NaN = NaN"


subsection \<open>Columns and row selection\<close>

text \<open>
  A table is the list of its rows, in index order. A column is read off the rows by its
  selector; arithmetic and comparisons on columns work position by position; indexing a
  table by a column of booleans keeps the rows at the positions that hold \<open>True\<close>.
\<close>

definition series_sub :: "int list \<Rightarrow> int list \<Rightarrow> int list" where
  "series_sub xs ys = map2 (\<lambda>x y. wrap64 (x - y)) xs ys"

definition series_truediv :: "int list \<Rightarrow> int list \<Rightarrow> pyfloat list" where
  "series_truediv xs ys = map2 true_divide xs ys"

definition series_mul_100 :: "pyfloat list \<Rightarrow> pyfloat list" where
  "series_mul_100 xs = map mul_100 xs"

definition series_eq :: "string list \<Rightarrow> string \<Rightarrow> bool list" where
  "series_eq xs v = map (\<lambda>x. x = v) xs"

definition series_le :: "int list \<Rightarrow> int \<Rightarrow> bool list" where
  "series_le xs v = map (\<lambda>x. x \<le> v) xs"

definition isin :: "string list \<Rightarrow> string list \<Rightarrow> bool list" where
  "isin xs vals = map (\<lambda>x. x \<in> set vals) xs"

definition bool_index :: "'a list \<Rightarrow> bool list \<Rightarrow> 'a list" where
  "bool_index df keep = map fst (filter snd (zip df keep))"

definition unique :: "string list \<Rightarrow> string list" where
  "unique xs = rev (remdups (rev xs))"

section \<open>The device table\<close>

record device =
  device_id :: string
  tipo :: string
  model :: string
  total_copies :: int
  costo_mantenimiento :: int
  ingreso_arrendamiento :: int
  inicio_arrendamiento :: datetime
  final_arrendamiento :: datetime
  status :: string
  cliente :: string

text \<open>The table once the \<^verbatim>\<open>roi\<close> column is assigned, and once the days column is.\<close>

record device_roi = device +
  roi :: pyfloat

record device_dias = device_roi +
  dias_para_vencimiento :: int

text \<open>
  The client names hold two letters outside ASCII, written here as their UTF-8 bytes.
\<close>

definition compania :: "string \<Rightarrow> string" where
  "compania s = ''Compa'' @ [CHR 0xC3, CHR 0xB1, CHR 0xC3, CHR 0xAD] @ ''a '' @ s"

definition generate_sample_data :: "device list" where
  "generate_sample_data =
     [\<lparr>device_id = ''P001'', tipo = ''Impresora'', model = ''HP LaserJet'',
       total_copies = 15000, costo_mantenimiento = 500, ingreso_arrendamiento = 2000,
       inicio_arrendamiento = mk_datetime 2024 1 1,
       final_arrendamiento = mk_datetime 2024 12 31,
       status = ''Activo'', cliente = compania ''A''\<rparr>,
      \<lparr>device_id = ''P002'', tipo = ''Impresora'', model = ''Canon ImageRUNNER'',
       total_copies = 22000, costo_mantenimiento = 750, ingreso_arrendamiento = 2500,
       inicio_arrendamiento = mk_datetime 2024 2 15,
       final_arrendamiento = mk_datetime 2024 11 15,
       status = ''Activo'', cliente = compania ''B''\<rparr>,
      \<lparr>device_id = ''C001'', tipo = ''Computadora'', model = ''Dell Latitude'',
       total_copies = 0, costo_mantenimiento = 300, ingreso_arrendamiento = 1500,
       inicio_arrendamiento = mk_datetime 2024 3 1,
       final_arrendamiento = mk_datetime 2024 12 31,
       status = ''Activo'', cliente = compania ''C''\<rparr>,
      \<lparr>device_id = ''C002'', tipo = ''Computadora'', model = ''MacBook Pro'',
       total_copies = 0, costo_mantenimiento = 450, ingreso_arrendamiento = 1800,
       inicio_arrendamiento = mk_datetime 2024 1 15,
       final_arrendamiento = mk_datetime 2024 10 15,
       status = ''Mantenimiento'', cliente = compania ''D''\<rparr>]"

text \<open>
  \<^verbatim>\<open>df['roi'] = (df[income] - df[cost]) / df[cost] * 100\<close>: the column is computed
  from the two columns of the table and attached to the rows position by position.
\<close>

definition assign_roi :: "device list \<Rightarrow> pyfloat list \<Rightarrow> device_roi list" where
  "assign_roi df col = map2 (\<lambda>r v. device.extend r (device_roi.fields v)) df col"

definition calculate_roi :: "device list \<Rightarrow> device_roi list" where
  "calculate_roi df =
     assign_roi df
       (series_mul_100
          (series_truediv
             (series_sub (map ingreso_arrendamiento df) (map costo_mantenimiento df))
             (map costo_mantenimiento df)))"

section \<open>The dashboard\<close>

text \<open>
  One run of \<^verbatim>\<open>main\<close> builds the table, derives the columns and draws four tabs.
  What the hosting runtime hands to the run is the state of the widgets (the categories
  ticked in the filter, the device and the status chosen in the two select boxes,
  whether the button was pressed) and the clock. The run is modelled by the data it
  passes to the display calls; titles, layout and the drawing of the charts are not
  part of the model, and a metric is modelled by the number that is formatted into it.
\<close>

record widgets =
  device_tipo_filter :: "string list"
  device_select :: string
  new_status :: string
  button :: bool

subsection \<open>Overview tab\<close>

record overview =
  total_de_dispositivos :: nat
  ingreso_mensual_total :: int
  costo_de_mantenimiento_total :: int
  dispositivos_activos :: nat

definition tab1 :: "device_roi list \<Rightarrow> overview" where
  "tab1 df =
     \<lparr>total_de_dispositivos = length df,
      ingreso_mensual_total = sum_list (map ingreso_arrendamiento df),
      costo_de_mantenimiento_total = sum_list (map costo_mantenimiento df),
      dispositivos_activos = length (bool_index df (series_eq (map status df) ''Active''))\<rparr>"

subsection \<open>Finance tab\<close>

text \<open>The bar chart is given, per row, the device id, the ROI and the category.\<close>

definition fig_roi :: "device_roi list \<Rightarrow> (string \<times> pyfloat \<times> string) list" where
  "fig_roi df = map (\<lambda>r. (device_id r, roi r, tipo r)) df"

definition fig_cost :: "device_roi list \<Rightarrow> (string \<times> int) list" where
  "fig_cost df = map (\<lambda>r. (device_id r, costo_mantenimiento r)) df"

subsection \<open>Inventory tab\<close>

type_synonym inventory_row = "string \<times> string \<times> string \<times> string \<times> string \<times> int \<times> int"

definition inventory_columns :: "device_roi \<Rightarrow> inventory_row" where
  "inventory_columns r =
     (device_id r, tipo r, model r, status r, cliente r,
      ingreso_arrendamiento r, costo_mantenimiento r)"

definition filtered_df :: "device_roi list \<Rightarrow> string list \<Rightarrow> device_roi list" where
  "filtered_df df sel = bool_index df (isin (map tipo df) sel)"

definition status_options :: "string list" where
  "status_options = [''Activo'', ''Mantenimiento'', ''Inactivo'']"

definition success_message :: "string \<Rightarrow> string \<Rightarrow> string" where
  "success_message dev st = ''Estado de '' @ dev @ '' actualizado a '' @ st"

record inventory =
  filter_options :: "string list"
  inventory_table :: "inventory_row list"
  success :: "string option"

text \<open>
  The tab reads the table and hands it on: the second component is the table as the
  rest of the run sees it after the button has been handled.
\<close>

definition tab3 :: "device_roi list \<Rightarrow> widgets \<Rightarrow> inventory \<times> device_roi list" where
  "tab3 df w =
     (\<lparr>filter_options = unique (map tipo df),
       inventory_table = map inventory_columns (filtered_df df (device_tipo_filter w)),
       success = (if button w then Some (success_message (device_select w) (new_status w))
                  else None)\<rparr>,
      df)"

subsection \<open>Leases tab\<close>

definition assign_dias :: "device_roi list \<Rightarrow> int list \<Rightarrow> device_dias list" where
  "assign_dias df col = map2 (\<lambda>r v. device_roi.extend r (device_dias.fields v)) df col"

definition add_dias_para_vencimiento :: "device_roi list \<Rightarrow> datetime \<Rightarrow> device_dias list" where
  "add_dias_para_vencimiento df current_date =
     assign_dias df (map (\<lambda>e. days (dt_sub e current_date)) (map final_arrendamiento df))"

definition expiring_soon :: "device_dias list \<Rightarrow> device_dias list" where
  "expiring_soon df = bool_index df (series_le (map dias_para_vencimiento df) 60)"

type_synonym expiring_row = "string \<times> string \<times> string \<times> datetime \<times> datetime \<times> int"

definition expiring_columns :: "device_dias \<Rightarrow> expiring_row" where
  "expiring_columns r =
     (device_id r, tipo r, cliente r, inicio_arrendamiento r, final_arrendamiento r,
      dias_para_vencimiento r)"

datatype expiration_display = Warning "expiring_row list" | Info string

record lease_summary_row =
  g_tipo :: string
  g_device_id :: nat
  g_ingreso_arrendamiento :: int
  g_inicio_arrendamiento :: "datetime option"
  g_final_arrendamiento :: "datetime option"

text \<open>
  Grouping by category: one group per distinct category, the groups in ascending
  order of the category, each holding its rows in table order. The summary counts the
  device ids of the group, sums its income, and takes its earliest start and latest end.
\<close>

definition groupby_tipo :: "device_dias list \<Rightarrow> (string \<times> device_dias list) list" where
  "groupby_tipo df =
     map (\<lambda>k. (k, bool_index df (series_eq (map tipo df) k))) (sort (remdups (map tipo df)))"

definition agg :: "string \<times> device_dias list \<Rightarrow> lease_summary_row" where
  "agg kg =
     \<lparr>g_tipo = fst kg,
      g_device_id = length (map device_id (snd kg)),
      g_ingreso_arrendamiento = sum_list (map ingreso_arrendamiento (snd kg)),
      g_inicio_arrendamiento = series_min (map inicio_arrendamiento (snd kg)),
      g_final_arrendamiento = series_max (map final_arrendamiento (snd kg))\<rparr>"

definition lease_summary :: "device_dias list \<Rightarrow> lease_summary_row list" where
  "lease_summary df = map agg (groupby_tipo df)"

record leases =
  expiration :: expiration_display
  summary :: "lease_summary_row list"

definition tab4 :: "device_roi list \<Rightarrow> datetime \<Rightarrow> leases \<times> device_dias list" where
  "tab4 df0 current_date =
     (let df = add_dias_para_vencimiento df0 current_date;
          soon = expiring_soon df
      in (\<lparr>expiration =
             (if soon = [] then Info ''No leases expiring in the next 60 days.''
              else Warning (map expiring_columns soon)),
           summary = lease_summary df\<rparr>,
          df))"

subsection \<open>The run\<close>

record page =
  overview_tab :: overview
  roi_chart :: "(string \<times> pyfloat \<times> string) list"
  cost_chart :: "(string \<times> int) list"
  inventory_tab :: inventory
  leases_tab :: leases
  table_at_end :: "device_dias list"

definition main :: "widgets \<Rightarrow> datetime \<Rightarrow> page" where
  "main w now =
     (let df = generate_sample_data;
          df = calculate_roi df;
          t1 = tab1 df;
          bars = fig_roi df;
          pie = fig_cost df;
          (t3, df) = tab3 df w;
          (t4, df') = tab4 df now
      in \<lparr>overview_tab = t1, roi_chart = bars, cost_chart = pie,
          inventory_tab = t3, leases_tab = t4, table_at_end = df'\<rparr>)"

text \<open>The ROI of one row, as the column expression computes it at that row's position.\<close>

definition roi_of :: "device \<Rightarrow> pyfloat" where
  "roi_of r =
     mul_100 (true_divide (wrap64 (ingreso_arrendamiento r - costo_mantenimiento r))
                (costo_mantenimiento r))"

section \<open>Auxiliary facts\<close>

subsection \<open>Tables\<close>

text \<open>
  Row selection by a computed column is a filter, and the derived columns are computed
  row by row; the parts of a run are read off the definition of the run.
\<close>

lemma bool_index_map: "bool_index df (map P df) = filter P df"
  by (induction df) (simp_all add: bool_index_def)

lemma calculate_roi_map:
  "calculate_roi df = map (\<lambda>r. device.extend r (device_roi.fields (roi_of r))) df"
  by (induction df)
     (simp_all add: calculate_roi_def assign_roi_def series_mul_100_def series_truediv_def
        series_sub_def roi_of_def)

lemma add_dias_map:
  "add_dias_para_vencimiento df now =
     map (\<lambda>r. device_roi.extend r (device_dias.fields (days (dt_sub (final_arrendamiento r) now)))) df"
  by (induction df) (simp_all add: add_dias_para_vencimiento_def assign_dias_def)

lemma truncate_calculate_roi: "map device.truncate (calculate_roi df) = df"
  by (induction df) (simp_all add: calculate_roi_map device.defs device_roi.defs)

lemma truncate_add_dias:
  "map device.truncate (add_dias_para_vencimiento df now) = map device.truncate df"
  by (induction df) (simp_all add: add_dias_map device.defs device_roi.defs device_dias.defs)

lemma main_table:
  "table_at_end (main w now) = add_dias_para_vencimiento (calculate_roi generate_sample_data) now"
  by (simp add: main_def tab3_def tab4_def Let_def)

lemma main_overview: "overview_tab (main w now) = tab1 (calculate_roi generate_sample_data)"
  by (simp add: main_def tab3_def tab4_def Let_def)

lemma main_inventory:
  "inventory_tab (main w now) = fst (tab3 (calculate_roi generate_sample_data) w)"
  by (simp add: main_def tab3_def tab4_def Let_def)

lemma main_leases:
  "leases_tab (main w now) = fst (tab4 (calculate_roi generate_sample_data) now)"
  by (simp add: main_def tab3_def tab4_def Let_def)

lemma filtered_df_filter: "filtered_df df sel = filter (\<lambda>r. tipo r \<in> set sel) df"
  by (simp add: filtered_df_def isin_def bool_index_map [symmetric] comp_def)

lemma expiring_soon_filter:
  "expiring_soon df = filter (\<lambda>r. dias_para_vencimiento r \<le> 60) df"
  by (simp add: expiring_soon_def series_le_def bool_index_map [symmetric] comp_def)

lemma dias_add_dias:
  "map dias_para_vencimiento (add_dias_para_vencimiento df now) =
     map (\<lambda>r. days (dt_sub (final_arrendamiento r) now)) df"
  by (induction df) (simp_all add: add_dias_map device_roi.defs device_dias.defs)

lemma to_micros_sample:
  "to_micros (mk_datetime 2024 1 1) = 63839750400000000"
  "to_micros (mk_datetime 2024 2 15) = 63843638400000000"
  "to_micros (mk_datetime 2024 3 1) = 63844934400000000"
  "to_micros (mk_datetime 2024 1 15) = 63840960000000000"
  "to_micros (mk_datetime 2024 12 31) = 63871286400000000"
  "to_micros (mk_datetime 2024 11 15) = 63867312000000000"
  "to_micros (mk_datetime 2024 10 15) = 63864633600000000"
  by code_simp+

lemma lease_summary_sample:
  "lease_summary (add_dias_para_vencimiento (calculate_roi generate_sample_data) now) =
     [\<lparr>g_tipo = ''Computadora'', g_device_id = 2, g_ingreso_arrendamiento = 3300,
       g_inicio_arrendamiento = Some (mk_datetime 2024 1 15),
       g_final_arrendamiento = Some (mk_datetime 2024 12 31)\<rparr>,
      \<lparr>g_tipo = ''Impresora'', g_device_id = 2, g_ingreso_arrendamiento = 4500,
       g_inicio_arrendamiento = Some (mk_datetime 2024 1 1),
       g_final_arrendamiento = Some (mk_datetime 2024 12 31)\<rparr>]"
  by (simp add: lease_summary_def groupby_tipo_def add_dias_map calculate_roi_map
      generate_sample_data_def device.defs device_roi.defs device_dias.defs series_eq_def
      bool_index_def agg_def dt_min_def dt_max_def to_micros_sample)

subsection \<open>Rounding\<close>

























subsection \<open>Sample values\<close>

text \<open>
  The ROI values of the four sample rows, and of the row whose difference wraps around.
\<close>

lemma wrap64_id: "int64 v \<Longrightarrow> wrap64 v = v"
  by (simp add: wrap64_def int64_def)

lemma roi_sample_values:
  "mul_100 (true_divide 1500 500) = Finite 300"
  "mul_100 (true_divide 1750 750) = Finite (8209686820727467 / 35184372088832)"
  "mul_100 (true_divide 1200 300) = Finite 400"
  "mul_100 (true_divide 1350 450) = Finite 300"
  by code_simp+


lemma sample_roi:
  "map roi (calculate_roi generate_sample_data) =
     [Finite 300, Finite (8209686820727467 / 35184372088832), Finite 400, Finite 300]"
  by (simp add: calculate_roi_map generate_sample_data_def roi_of_def wrap64_def
      roi_sample_values device.defs device_roi.defs)

section \<open>Properties of the dashboard\<close>

subsection \<open>C1\<close>




subsection \<open>C2\<close>

text \<open>
  C2. The active-device metric of the Overview counts the rows whose status is exactly
  the string \<open>Active\<close>. The sample table stores \<open>Activo\<close> and \<open>Mantenimiento\<close>, so
  the metric is zero in every run.
\<close>

theorem active_count_zero:
  "dispositivos_activos (tab1 df) = length (filter (\<lambda>r. status r = ''Active'') df) \<and>
   map status generate_sample_data = [''Activo'', ''Activo'', ''Activo'', ''Mantenimiento''] \<and>
   dispositivos_activos (overview_tab (main w now)) = 0"
proof (intro conjI)
  show a: "dispositivos_activos (tab1 df) = length (filter (\<lambda>r. status r = ''Active'') df)" for df
    by (simp add: tab1_def series_eq_def bool_index_map [symmetric] comp_def)
  show "map status generate_sample_data = [''Activo'', ''Activo'', ''Activo'', ''Mantenimiento'']"
    by (simp add: generate_sample_data_def)
  show "dispositivos_activos (overview_tab (main w now)) = 0"
    by (simp add: main_overview a calculate_roi_map generate_sample_data_def device.defs device_roi.defs)
qed

subsection \<open>C3\<close>

text \<open>
  C3. In every run, whatever the clock, the days column holds for each row the whole days
  from the clock to the end of the lease, and a row of the table is in the expiring-soon
  selection exactly when its days value is at most 60. The selection is shown as a
  warning table unless it is empty. On 2024-11-01 at midnight the two leases ending on
  2024-12-31 have 60 days left and are selected; one day earlier they have 61 and are
  not.
\<close>

theorem expiring_soon_iff:
  "map dias_para_vencimiento (table_at_end (main w now)) =
     map (\<lambda>r. days (dt_sub (final_arrendamiento r) now)) generate_sample_data \<and>
   expiration (leases_tab (main w now)) =
     (if expiring_soon (table_at_end (main w now)) = []
      then Info ''No leases expiring in the next 60 days.''
      else Warning (map expiring_columns (expiring_soon (table_at_end (main w now))))) \<and>
   (r \<in> set (expiring_soon (table_at_end (main w now))) \<longleftrightarrow>
      r \<in> set (table_at_end (main w now)) \<and> dias_para_vencimiento r \<le> 60) \<and>
   map (\<lambda>r. (device_id r, dias_para_vencimiento r))
     (expiring_soon (table_at_end (main w
        \<lparr>year = 2024, month = 11, day = 1, hour = 0, minute = 0, second = 0,
         microsecond = 0\<rparr>))) =
     [(''P001'', 60), (''P002'', 14), (''C001'', 60), (''C002'', - 17)] \<and>
   map (\<lambda>r. (device_id r, dias_para_vencimiento r))
     (expiring_soon (table_at_end (main w
        \<lparr>year = 2024, month = 10, day = 31, hour = 0, minute = 0, second = 0,
         microsecond = 0\<rparr>))) =
     [(''P002'', 15), (''C002'', - 16)]"
proof (intro conjI)
  have "map dias_para_vencimiento (table_at_end (main w now)) =
     map (\<lambda>r. days (dt_sub (final_arrendamiento r) now)) (calculate_roi generate_sample_data)"
    by (simp add: main_table dias_add_dias)
  also have "\<dots> = map (\<lambda>r. days (dt_sub (final_arrendamiento r) now))
      (map device.truncate (calculate_roi generate_sample_data))"
    by (simp add: comp_def device.defs)
  finally show "map dias_para_vencimiento (table_at_end (main w now)) =
     map (\<lambda>r. days (dt_sub (final_arrendamiento r) now)) generate_sample_data"
    by (simp only: truncate_calculate_roi)
  show "expiration (leases_tab (main w now)) =
     (if expiring_soon (table_at_end (main w now)) = []
      then Info ''No leases expiring in the next 60 days.''
      else Warning (map expiring_columns (expiring_soon (table_at_end (main w now)))))"
    by (simp add: main_leases main_table tab4_def Let_def)
  show "r \<in> set (expiring_soon (table_at_end (main w now))) \<longleftrightarrow>
      r \<in> set (table_at_end (main w now)) \<and> dias_para_vencimiento r \<le> 60"
    by (simp add: expiring_soon_filter)
  show "map (\<lambda>r. (device_id r, dias_para_vencimiento r))
     (expiring_soon (table_at_end (main w
        \<lparr>year = 2024, month = 11, day = 1, hour = 0, minute = 0, second = 0,
         microsecond = 0\<rparr>))) =
     [(''P001'', 60), (''P002'', 14), (''C001'', 60), (''C002'', - 17)]"
    unfolding main_table by code_simp
  show "map (\<lambda>r. (device_id r, dias_para_vencimiento r))
     (expiring_soon (table_at_end (main w
        \<lparr>year = 2024, month = 10, day = 31, hour = 0, minute = 0, second = 0,
         microsecond = 0\<rparr>))) =
     [(''P002'', 15), (''C002'', - 16)]"
    unfolding main_table by code_simp
qed

subsection \<open>C4\<close>

text \<open>
  C4. For every selection of categories, the filtered table holds exactly the rows of the
  table whose category is in the selection, in table order, and the Inventory tab shows
  the columns of those rows.
\<close>

theorem filtered_df_exact:
  "filtered_df df sel = filter (\<lambda>r. tipo r \<in> set sel) df \<and>
   (r \<in> set (filtered_df df sel) \<longleftrightarrow> r \<in> set df \<and> tipo r \<in> set sel) \<and>
   inventory_table (inventory_tab (main w now)) =
     map inventory_columns
       (filter (\<lambda>r. tipo r \<in> set (device_tipo_filter w)) (calculate_roi generate_sample_data))"
  by (simp add: filtered_df_filter main_inventory tab3_def)

subsection \<open>C5\<close>

text \<open>
  C5. In every run the lease summary of the sample table has one row per category, and
  the row of the printers (\<open>Impresora\<close>) counts 2 devices, sums an income of 4500, starts
  on 2024-01-01 at the earliest and ends on 2024-12-31 at the latest.
\<close>

theorem printer_lease_summary:
  "summary (leases_tab (main w now)) =
     [\<lparr>g_tipo = ''Computadora'', g_device_id = 2, g_ingreso_arrendamiento = 3300,
       g_inicio_arrendamiento = Some (mk_datetime 2024 1 15),
       g_final_arrendamiento = Some (mk_datetime 2024 12 31)\<rparr>,
      \<lparr>g_tipo = ''Impresora'', g_device_id = 2, g_ingreso_arrendamiento = 4500,
       g_inicio_arrendamiento = Some (mk_datetime 2024 1 1),
       g_final_arrendamiento = Some (mk_datetime 2024 12 31)\<rparr>] \<and>
   filter (\<lambda>g. g_tipo g = ''Impresora'') (summary (leases_tab (main w now))) =
     [\<lparr>g_tipo = ''Impresora'', g_device_id = 2, g_ingreso_arrendamiento = 4500,
       g_inicio_arrendamiento =
         Some \<lparr>year = 2024, month = 1, day = 1, hour = 0, minute = 0, second = 0,
               microsecond = 0\<rparr>,
       g_final_arrendamiento =
         Some \<lparr>year = 2024, month = 12, day = 31, hour = 0, minute = 0, second = 0,
               microsecond = 0\<rparr>\<rparr>]"
proof -
  have s: "summary (leases_tab (main w now)) =
      lease_summary (add_dias_para_vencimiento (calculate_roi generate_sample_data) now)"
    by (simp add: main_leases tab4_def Let_def)
  show ?thesis
    unfolding s lease_summary_sample by (simp add: mk_datetime_def)
qed

subsection \<open>C6\<close>

text \<open>
  C6. Pressing the update button with a device of the table and one of the three statuses
  chosen emits the confirmation message; the tab hands the table on as it received it,
  the table at the end of that run has the built records in every original column, and
  so has the table of any later run.
\<close>

theorem status_update_no_write:
  assumes "device_select w \<in> set (map device_id generate_sample_data)"
    and "new_status w \<in> set status_options"
    and "button w"
  shows "success (inventory_tab (main w now)) =
           Some (''Estado de '' @ device_select w @ '' actualizado a '' @ new_status w) \<and>
         snd (tab3 df w) = df \<and>
         map device.truncate (table_at_end (main w now)) = generate_sample_data \<and>
         map device.truncate (table_at_end (main w' now')) = generate_sample_data"
proof -
  have t: "map device.truncate (table_at_end (main v n)) = generate_sample_data" for v n
    by (simp only: main_table truncate_add_dias truncate_calculate_roi)
  have "success (inventory_tab (main w now)) =
           Some (''Estado de '' @ device_select w @ '' actualizado a '' @ new_status w)"
    using assms(3) by (simp add: main_inventory tab3_def success_message_def)
  moreover have "snd (tab3 df w) = df"
    by (simp add: tab3_def)
  ultimately show ?thesis
    by (simp only: t simp_thms)
qed

text \<open>The statement at a concrete input.\<close>

theorem status_update_no_write_witness:
  "success (inventory_tab (main
      \<lparr>device_tipo_filter = [''Impresora'', ''Computadora''], device_select = ''C002'',
       new_status = ''Activo'', button = True\<rparr> (mk_datetime 2024 6 1))) =
     Some ''Estado de C002 actualizado a Activo'' \<and>
   map status (table_at_end (main
      \<lparr>device_tipo_filter = [''Impresora'', ''Computadora''], device_select = ''C002'',
       new_status = ''Activo'', button = True\<rparr> (mk_datetime 2024 6 1))) =
     [''Activo'', ''Activo'', ''Activo'', ''Mantenimiento'']"
proof -
  let ?w = "\<lparr>device_tipo_filter = [''Impresora'', ''Computadora''], device_select = ''C002'',
       new_status = ''Activo'', button = True\<rparr>"
  let ?n = "mk_datetime 2024 6 1"
  have h1: "device_select ?w \<in> set (map device_id generate_sample_data)"
    by (simp add: generate_sample_data_def)
  have h2: "new_status ?w \<in> set status_options"
    by (simp add: status_options_def)
  have h3: "button ?w" by simp
  from status_update_no_write [OF h1 h2 h3, of ?n]
  have a: "success (inventory_tab (main ?w ?n)) =
      Some (''Estado de '' @ device_select ?w @ '' actualizado a '' @ new_status ?w)"
    and b: "map device.truncate (table_at_end (main ?w ?n)) = generate_sample_data"
    by blast+
  have "map status (table_at_end (main ?w ?n)) =
        map status (map device.truncate (table_at_end (main ?w ?n)))"
    by (simp add: comp_def device.defs)
  then have "map status (table_at_end (main ?w ?n)) = map status generate_sample_data"
    by (simp only: b)
  then show ?thesis
    using a by (simp add: generate_sample_data_def)
qed

subsection \<open>C7\<close>

text \<open>
  C7. The builder takes no input and reads neither the widgets nor the clock: the records
  a run works on are the same four records, in the same order, in every run, whatever
  the widget state and the time. The days column, which depends on the clock, is not
  among the built columns.
\<close>

theorem dataset_builder_deterministic:
  "map device.truncate (table_at_end (main w now)) = generate_sample_data \<and>
   map device.truncate (table_at_end (main w now)) =
     map device.truncate (table_at_end (main w' now')) \<and>
   map device_id generate_sample_data = [''P001'', ''P002'', ''C001'', ''C002'']"
proof -
  have "map device.truncate (table_at_end (main w n)) = generate_sample_data" for w n
    by (simp only: main_table truncate_add_dias truncate_calculate_roi)
  then show ?thesis
    by (simp add: generate_sample_data_def)
qed

subsection \<open>C8\<close>

text \<open>
  C8, as stated, fails. A row with maintenance cost 0 and income 2000: the calculator
  returns plus infinity for it, and the bar chart receives that value.
\<close>

theorem zero_cost_roi_counterexample:
  "costo_mantenimiento
     \<lparr>device_id = ''P003'', tipo = ''Impresora'', model = ''HP LaserJet'',
      total_copies = 0, costo_mantenimiento = 0, ingreso_arrendamiento = 2000,
      inicio_arrendamiento = mk_datetime 2024 1 1,
      final_arrendamiento = mk_datetime 2024 12 31,
      status = ''Activo'', cliente = ''A''\<rparr> = 0 \<and>
   map roi (calculate_roi
     [\<lparr>device_id = ''P003'', tipo = ''Impresora'', model = ''HP LaserJet'',
       total_copies = 0, costo_mantenimiento = 0, ingreso_arrendamiento = 2000,
       inicio_arrendamiento = mk_datetime 2024 1 1,
       final_arrendamiento = mk_datetime 2024 12 31,
       status = ''Activo'', cliente = ''A''\<rparr>]) = [PosInf] \<and>
   fig_roi (calculate_roi
     [\<lparr>device_id = ''P003'', tipo = ''Impresora'', model = ''HP LaserJet'',
       total_copies = 0, costo_mantenimiento = 0, ingreso_arrendamiento = 2000,
       inicio_arrendamiento = mk_datetime 2024 1 1,
       final_arrendamiento = mk_datetime 2024 12 31,
       status = ''Activo'', cliente = ''A''\<rparr>]) = [(''P003'', PosInf, ''Impresora'')]"
  by (simp add: calculate_roi_map roi_of_def wrap64_def true_divide_def fig_roi_def
      device.defs device_roi.defs)

text \<open>
  C8, as amended. For a table whose cost and income columns hold 64-bit integers, at a
  row whose maintenance cost is zero the calculator raises nothing and has no special
  case: the ROI is plus infinity for a positive income, minus infinity for a negative
  one and not-a-number for a zero income, and the bar chart is given that value.
\<close>

theorem zero_cost_roi_not_finite:
  assumes "\<forall>r \<in> set df. int64 (costo_mantenimiento r) \<and> int64 (ingreso_arrendamiento r)"
    and "i < length df" and "costo_mantenimiento (df ! i) = 0"
  shows "length (calculate_roi df) = length df \<and>
         roi (calculate_roi df ! i) =
           (if 0 < ingreso_arrendamiento (df ! i) then PosInf
            else if ingreso_arrendamiento (df ! i) < 0 then NegInf else NaN) \<and>
         fig_roi (calculate_roi df) ! i =
           (device_id (df ! i), roi (calculate_roi df ! i), tipo (df ! i))"
proof (intro conjI)
  show "length (calculate_roi df) = length df"
    by (simp add: calculate_roi_map)
  have "df ! i \<in> set df"
    using assms(2) by simp
  then have fits: "int64 (ingreso_arrendamiento (df ! i))"
    using assms(1) by blast
  have "roi (calculate_roi df ! i) = roi_of (df ! i)"
    using assms(2) by (simp add: calculate_roi_map device.defs device_roi.defs)
  then show "roi (calculate_roi df ! i) =
           (if 0 < ingreso_arrendamiento (df ! i) then PosInf
            else if ingreso_arrendamiento (df ! i) < 0 then NegInf else NaN)"
    using assms(3) fits by (simp add: roi_of_def wrap64_id true_divide_def)
  show "fig_roi (calculate_roi df) ! i =
           (device_id (df ! i), roi (calculate_roi df ! i), tipo (df ! i))"
    using assms(2) by (simp add: fig_roi_def calculate_roi_map device.defs device_roi.defs)
qed

text \<open>The statement at a row with cost 0 and income 0.\<close>

theorem zero_cost_roi_not_finite_witness:
  "list_all (\<lambda>r. int64 (costo_mantenimiento r) \<and> int64 (ingreso_arrendamiento r))
     [\<lparr>device_id = ''P003'', tipo = ''Impresora'', model = ''HP LaserJet'',
       total_copies = 0, costo_mantenimiento = 0, ingreso_arrendamiento = 0,
       inicio_arrendamiento = mk_datetime 2024 1 1,
       final_arrendamiento = mk_datetime 2024 12 31,
       status = ''Activo'', cliente = ''A''\<rparr>] \<and>
   (0::nat) < length
     [\<lparr>device_id = ''P003'', tipo = ''Impresora'', model = ''HP LaserJet'',
       total_copies = 0, costo_mantenimiento = 0, ingreso_arrendamiento = 0,
       inicio_arrendamiento = mk_datetime 2024 1 1,
       final_arrendamiento = mk_datetime 2024 12 31,
       status = ''Activo'', cliente = ''A''\<rparr>] \<and>
   roi (calculate_roi
     [\<lparr>device_id = ''P003'', tipo = ''Impresora'', model = ''HP LaserJet'',
       total_copies = 0, costo_mantenimiento = 0, ingreso_arrendamiento = 0,
       inicio_arrendamiento = mk_datetime 2024 1 1,
       final_arrendamiento = mk_datetime 2024 12 31,
       status = ''Activo'', cliente = ''A''\<rparr>] ! 0) = NaN"
proof -
  let ?r = "\<lparr>device_id = ''P003'', tipo = ''Impresora'', model = ''HP LaserJet'',
       total_copies = 0, costo_mantenimiento = 0, ingreso_arrendamiento = 0,
       inicio_arrendamiento = mk_datetime 2024 1 1,
       final_arrendamiento = mk_datetime 2024 12 31,
       status = ''Activo'', cliente = ''A''\<rparr>"
  have h0: "\<forall>r \<in> set [?r]. int64 (costo_mantenimiento r) \<and> int64 (ingreso_arrendamiento r)"
    by (simp add: int64_def)
  have h1: "(0::nat) < length [?r]" by simp
  have h2: "costo_mantenimiento ([?r] ! 0) = 0" by simp
  from zero_cost_roi_not_finite [OF h0 h1 h2]
  have "roi (calculate_roi [?r] ! 0) =
      (if 0 < ingreso_arrendamiento ([?r] ! 0) then PosInf
       else if ingreso_arrendamiento ([?r] ! 0) < 0 then NegInf else NaN)"
    by blast
  then show ?thesis by (simp add: int64_def)
qed

subsection \<open>C9\<close>

text \<open>
  C9. The income total of the Overview is the sum of the income column over all rows of
  the built table (7800), whatever is ticked in the category filter of the Inventory
  tab.
\<close>

theorem overview_income_unfiltered:
  "ingreso_mensual_total (overview_tab (main w now)) =
     sum_list (map ingreso_arrendamiento generate_sample_data) \<and>
   ingreso_mensual_total (overview_tab (main w now)) = 7800 \<and>
   overview_tab (main w now) =
     overview_tab (main (w\<lparr>device_tipo_filter := sel\<rparr>) now)"
proof (intro conjI)
  have "map ingreso_arrendamiento (calculate_roi generate_sample_data) =
        map ingreso_arrendamiento (map device.truncate (calculate_roi generate_sample_data))"
    by (simp add: comp_def device.defs)
  then have eq: "map ingreso_arrendamiento (calculate_roi generate_sample_data) =
        map ingreso_arrendamiento generate_sample_data"
    by (simp only: truncate_calculate_roi)
  show "ingreso_mensual_total (overview_tab (main w now)) =
     sum_list (map ingreso_arrendamiento generate_sample_data)"
    by (simp add: main_overview tab1_def eq)
  then show "ingreso_mensual_total (overview_tab (main w now)) = 7800"
    by (simp add: generate_sample_data_def)
  show "overview_tab (main w now) = overview_tab (main (w\<lparr>device_tipo_filter := sel\<rparr>) now)"
    by (simp add: main_overview)
qed

subsection \<open>C10\<close>

text \<open>
  C10. No two records of the built table share a device id.
\<close>

theorem sample_device_ids_distinct: "distinct (map device_id generate_sample_data)"
  by (simp add: generate_sample_data_def)

end
